theory Spec2Isabelle
  imports Complex_Main
begin

section \<open>Numbers as the fitter sees them\<close>

text \<open>
  The fitter computes on numpy double-precision arrays with the default error state:
  a division by zero, a logarithm of a non-positive number or an invalid operation
  issues a warning and yields an infinity or a not-a-number, never an exception.
  The model keeps these special values and the rules that produce them and replaces the
  rounded finite arithmetic by exact real arithmetic; the sign of a zero is not kept
  (a zero divisor counts as positive). The sample itself is a list of (finite) reals.
\<close>

datatype fl = Fin real | PInf | NInf | NaN

definition isnan :: "fl \<Rightarrow> bool" where
  "isnan a = (a = NaN)"

fun isfinite :: "fl \<Rightarrow> bool" where
  "isfinite (Fin a) = True"
| "isfinite _ = False"

fun fl_neg :: "fl \<Rightarrow> fl" where
  "fl_neg (Fin a) = Fin (- a)"
| "fl_neg PInf = NInf"
| "fl_neg NInf = PInf"
| "fl_neg NaN = NaN"

fun fl_abs :: "fl \<Rightarrow> fl" where
  "fl_abs (Fin a) = Fin \<bar>a\<bar>"
| "fl_abs PInf = PInf"
| "fl_abs NInf = PInf"
| "fl_abs NaN = NaN"

fun fl_add :: "fl \<Rightarrow> fl \<Rightarrow> fl" where
  "fl_add NaN _ = NaN"
| "fl_add _ NaN = NaN"
| "fl_add (Fin a) (Fin b) = Fin (a + b)"
| "fl_add PInf NInf = NaN"
| "fl_add NInf PInf = NaN"
| "fl_add PInf _ = PInf"
| "fl_add _ PInf = PInf"
| "fl_add NInf _ = NInf"
| "fl_add _ NInf = NInf"

definition fl_sub :: "fl \<Rightarrow> fl \<Rightarrow> fl" where
  "fl_sub a b = fl_add a (fl_neg b)"

text \<open>The sign of a value that is not a NaN: \<open>1\<close>, \<open>0\<close> or \<open>-1\<close>.\<close>

fun fl_sgn :: "fl \<Rightarrow> real" where
  "fl_sgn (Fin a) = sgn a"
| "fl_sgn PInf = 1"
| "fl_sgn NInf = - 1"
| "fl_sgn NaN = 0"

definition signed_inf :: "real \<Rightarrow> fl" where
  "signed_inf s = (if s = 0 then NaN else if 0 < s then PInf else NInf)"

fun fl_mul :: "fl \<Rightarrow> fl \<Rightarrow> fl" where
  "fl_mul NaN _ = NaN"
| "fl_mul _ NaN = NaN"
| "fl_mul (Fin a) (Fin b) = Fin (a * b)"
| "fl_mul a b = signed_inf (fl_sgn a * fl_sgn b)"

fun fl_div :: "fl \<Rightarrow> fl \<Rightarrow> fl" where
  "fl_div NaN _ = NaN"
| "fl_div _ NaN = NaN"
| "fl_div (Fin a) (Fin b) = (if b = 0 then signed_inf a else Fin (a / b))"
| "fl_div (Fin a) _ = Fin 0"
| "fl_div a (Fin b) = signed_inf (fl_sgn a * (if b < 0 then - 1 else 1))"
| "fl_div _ _ = NaN"

fun fl_log :: "fl \<Rightarrow> fl" where
  "fl_log (Fin a) = (if a < 0 then NaN else if a = 0 then NInf else Fin (ln a))"
| "fl_log PInf = PInf"
| "fl_log _ = NaN"

fun fl_sqrt :: "fl \<Rightarrow> fl" where
  "fl_sqrt (Fin a) = (if a < 0 then NaN else Fin (sqrt a))"
| "fl_sqrt PInf = PInf"
| "fl_sqrt _ = NaN"

text \<open>
  Comparisons: every ordered comparison with a NaN is false.
\<close>

fun fl_lt :: "fl \<Rightarrow> fl \<Rightarrow> bool" where
  "fl_lt NaN _ = False"
| "fl_lt _ NaN = False"
| "fl_lt (Fin a) (Fin b) = (a < b)"
| "fl_lt _ NInf = False"
| "fl_lt NInf _ = True"
| "fl_lt PInf _ = False"
| "fl_lt _ PInf = True"

fun fl_le :: "fl \<Rightarrow> fl \<Rightarrow> bool" where
  "fl_le NaN _ = False"
| "fl_le _ NaN = False"
| "fl_le (Fin a) (Fin b) = (a \<le> b)"
| "fl_le NInf _ = True"
| "fl_le _ PInf = True"
| "fl_le _ _ = False"

definition fl_ge :: "fl \<Rightarrow> fl \<Rightarrow> bool" where
  "fl_ge a b = fl_le b a"

definition fl_gt :: "fl \<Rightarrow> fl \<Rightarrow> bool" where
  "fl_gt a b = fl_lt b a"

text \<open>
  The power function \<open>a ** b\<close> with the special cases of the C library's \<open>pow\<close>:
  \<open>a ** 0 = 1\<close> and \<open>1 ** b = 1\<close> for every operand, a negative base with a
  non-integral exponent is invalid, and the limits at zero and infinity.
\<close>

definition is_int :: "real \<Rightarrow> bool" where
  "is_int b = (of_int \<lfloor>b\<rfloor> = b)"

definition is_odd_int :: "real \<Rightarrow> bool" where
  "is_odd_int b = (is_int b \<and> odd \<lfloor>b\<rfloor>)"

fun fl_pow :: "fl \<Rightarrow> fl \<Rightarrow> fl" where
  "fl_pow a (Fin b) =
     (if b = 0 then Fin 1
      else case a of
        NaN \<Rightarrow> NaN
      | PInf \<Rightarrow> (if b < 0 then Fin 0 else PInf)
      | NInf \<Rightarrow> (if b < 0 then Fin 0 else if is_odd_int b then NInf else PInf)
      | Fin x \<Rightarrow>
          (if x = 0 then (if b < 0 then PInf else Fin 0)
           else if 0 < x then Fin (x powr b)
           else if is_odd_int b then Fin (- (\<bar>x\<bar> powr b))
           else if is_int b then Fin (\<bar>x\<bar> powr b)
           else NaN))"
| "fl_pow a NaN = (if a = Fin 1 then Fin 1 else NaN)"
| "fl_pow a PInf =
     (case a of
        NaN \<Rightarrow> NaN
      | PInf \<Rightarrow> PInf
      | NInf \<Rightarrow> PInf
      | Fin x \<Rightarrow> (if \<bar>x\<bar> = 1 then Fin 1 else if \<bar>x\<bar> < 1 then Fin 0 else PInf))"
| "fl_pow a NInf =
     (case a of
        NaN \<Rightarrow> NaN
      | PInf \<Rightarrow> Fin 0
      | NInf \<Rightarrow> Fin 0
      | Fin x \<Rightarrow> (if \<bar>x\<bar> = 1 then Fin 1 else if \<bar>x\<bar> < 1 then PInf else Fin 0))"

section \<open>Array operations of numpy\<close>

text \<open>
  The exceptions the fit can raise. \<open>UnboundLocalError\<close> is Python's error for
  reading a local variable before its assignment; \<open>ZeroDivisionError\<close> is raised by a
  division of Python numbers (not of numpy values) by zero.
\<close>

datatype error =
  ValueError | AssertionError | ImportError | IndexError | ZeroDivisionError | UnboundLocalError

text \<open>\<open>numpy.sum\<close> of a float array; the sum of the empty array is \<open>0.0\<close>.\<close>

definition np_sum :: "fl list \<Rightarrow> fl" where
  "np_sum xs = foldl fl_add (Fin 0) xs"

text \<open>\<open>x[mask]\<close>: the elements of \<open>x\<close> where the boolean mask is true.\<close>

definition mask_select :: "'a list \<Rightarrow> bool list \<Rightarrow> 'a list" where
  "mask_select xs bs = map fst (filter snd (zip xs bs))"

definition count_nonzero :: "bool list \<Rightarrow> nat" where
  "count_nonzero bs = length (filter id bs)"

text \<open>
  \<open>numpy.max\<close> propagates a NaN and raises \<open>ValueError\<close> on an empty array.
\<close>

definition fl_maximum :: "fl \<Rightarrow> fl \<Rightarrow> fl" where
  "fl_maximum a b = (if isnan a then a else if isnan b then b else if fl_lt a b then b else a)"

definition np_max1 :: "fl \<Rightarrow> fl list \<Rightarrow> fl" where
  "np_max1 v vs = foldl fl_maximum v vs"

definition np_max :: "fl list \<Rightarrow> error + fl" where
  "np_max xs = (case xs of [] \<Rightarrow> Inl ValueError | v # vs \<Rightarrow> Inr (np_max1 v vs))"

text \<open>
  \<open>numpy.argmin\<close> on a float array is the loop of numpy's \<open>DOUBLE_argmin\<close>: the
  running minimum \<open>mp\<close> is replaced when the next element is not \<open>\<ge> mp\<close>, and the
  first NaN met ends the scan as the minimum. An empty array raises \<open>ValueError\<close>.
\<close>

fun argmin_loop :: "fl \<Rightarrow> nat \<Rightarrow> nat \<Rightarrow> fl list \<Rightarrow> nat" where
  "argmin_loop mp min_ind i [] = min_ind"
| "argmin_loop mp min_ind i (v # vs) =
     (if \<not> fl_ge v mp then (if isnan v then i else argmin_loop v i (Suc i) vs)
      else argmin_loop mp min_ind (Suc i) vs)"

definition argmin :: "fl list \<Rightarrow> error + nat" where
  "argmin xs =
     (case xs of
        [] \<Rightarrow> Inl ValueError
      | v # vs \<Rightarrow> Inr (if isnan v then 0 else argmin_loop v 0 1 vs))"

text \<open>\<open>numpy.argmax\<close>, the mirror image (\<open>DOUBLE_argmax\<close>).\<close>

fun argmax_loop :: "fl \<Rightarrow> nat \<Rightarrow> nat \<Rightarrow> fl list \<Rightarrow> nat" where
  "argmax_loop mp max_ind i [] = max_ind"
| "argmax_loop mp max_ind i (v # vs) =
     (if \<not> fl_le v mp then (if isnan v then i else argmax_loop v i (Suc i) vs)
      else argmax_loop mp max_ind (Suc i) vs)"

definition argmax :: "fl list \<Rightarrow> error + nat" where
  "argmax xs =
     (case xs of
        [] \<Rightarrow> Inl ValueError
      | v # vs \<Rightarrow> Inr (if isnan v then 0 else argmax_loop v 0 1 vs))"

text \<open>
  \<open>numpy.argmin\<close> on a boolean array: the index of the first \<open>False\<close>, and \<open>0\<close>
  when every element is \<open>True\<close>.
\<close>

definition argmin_bool :: "bool list \<Rightarrow> error + nat" where
  "argmin_bool bs =
     (if bs = [] then Inl ValueError
      else Inr (let k = length (takeWhile id bs) in if k < length bs then k else 0))"

text \<open>
  \<open>numpy.unique(z, return_index=True)\<close>: the array is sorted (stably), an element is
  kept when it differs from its predecessor, and the indices are those of the kept
  elements, that is, of the first occurrences.
\<close>

fun unique_mask_from :: "real \<Rightarrow> real list \<Rightarrow> bool list" where
  "unique_mask_from p [] = []"
| "unique_mask_from p (v # vs) = (v \<noteq> p) # unique_mask_from v vs"

definition unique_mask :: "real list \<Rightarrow> bool list" where
  "unique_mask aux = (case aux of [] \<Rightarrow> [] | v # vs \<Rightarrow> True # unique_mask_from v vs)"

definition np_unique :: "real list \<Rightarrow> real list" where
  "np_unique ar = (let aux = sort ar in mask_select aux (unique_mask aux))"

definition np_unique_index :: "real list \<Rightarrow> real list \<times> nat list" where
  "np_unique_index ar =
     (let aux = sort ar; mask = unique_mask aux
      in (mask_select aux mask, mask_select [0..<length aux] mask))"

text \<open>Python's slice \<open>xs[:k]\<close>; a negative \<open>k\<close> counts from the end.\<close>

definition py_take :: "int \<Rightarrow> 'a list \<Rightarrow> 'a list" where
  "py_take k xs = (if k < 0 then take (nat (int (length xs) + k)) xs else take (nat k) xs)"

text \<open>Indexing an array with a non-negative index; out of range raises \<open>IndexError\<close>.\<close>

definition np_get :: "'a list \<Rightarrow> nat \<Rightarrow> error + 'a" where
  "np_get xs i = (if i < length xs then Inr (xs ! i) else Inl IndexError)"

section \<open>Continuous estimator primitives\<close>

text \<open>
  \<open>alpha_gen(x)\<close> returns the function \<open>alpha_\<close> of \<open>xmin\<close>; the model takes both
  arguments at once. The \<open>0\<close> returned for fewer than two points is stored in a float
  array by the caller.
\<close>

definition alpha_gen :: "real list \<Rightarrow> real \<Rightarrow> fl" where
  "alpha_gen x xmin =
     (let gexmin = map (\<lambda>v. xmin \<le> v) x;
          n = count_nonzero gexmin
      in if n < 2 then Fin 0
         else let x' = mask_select x gexmin
              in fl_add (Fin 1)
                   (fl_div (Fin (real n))
                      (np_sum (map (\<lambda>v. fl_log (fl_div (Fin v) (Fin xmin))) x'))))"

text \<open>
  \<open>kstest_gen(x, unique, finite)\<close> returns the function \<open>kstest_\<close> of \<open>xmin\<close>. The
  maximum is taken over a non-empty array here (\<open>n = 0\<close> has returned before), but the
  model keeps \<open>numpy.max\<close> as it is.
\<close>

definition kstest_gen :: "real list \<Rightarrow> bool \<Rightarrow> bool \<Rightarrow> real \<Rightarrow> error + fl" where
  "kstest_gen x0 unique finite_corr xmin =
     (let x1 = (if unique then np_unique x0 else x0);
          x = mask_select x1 (map (\<lambda>v. xmin \<le> v) x1);
          n = length x
      in if n = 0 then Inr PInf
         else
           let a0 = fl_add (Fin 1)
                      (fl_div (Fin (real n))
                         (np_sum (map (\<lambda>v. fl_log (fl_div (Fin v) (Fin xmin))) x)));
               a = (if finite_corr
                    then fl_add (fl_div (fl_mul a0 (Fin (real n - 1))) (Fin (real n)))
                           (fl_div (Fin 1) (Fin (real n)))
                    else a0);
               cx = map (\<lambda>i. fl_div (Fin (real i)) (Fin (real n))) [0..<n];
               cf = map (\<lambda>v. fl_sub (Fin 1)
                                 (fl_pow (fl_div (Fin xmin) (Fin v)) (fl_sub a (Fin 1)))) x
           in np_max (map2 (\<lambda>f c. fl_abs (fl_sub f c)) cf cx))"

text \<open>\<open>sigma(alpha, n)\<close>, equation 3.2 of Clauset et al.\<close>

definition sigma :: "fl \<Rightarrow> fl \<Rightarrow> fl" where
  "sigma alpha n = fl_div (fl_sub alpha (Fin 1)) (fl_pow n (Fin 0.5))"

section \<open>Discrete estimator primitives\<close>

definition discrete_alpha_mle :: "real list \<Rightarrow> real \<Rightarrow> fl" where
  "discrete_alpha_mle data xmin =
     (let gexmin = map (\<lambda>v. xmin \<le> v) data;
          nn = count_nonzero gexmin
      in if nn < 2 then Fin 0
         else let xx = mask_select data gexmin
              in fl_add (Fin 1)
                   (fl_mul (Fin (real nn))
                      (fl_pow
                         (np_sum (map (\<lambda>v. fl_log (fl_div (Fin v) (Fin (xmin - 0.5)))) xx))
                         (Fin (- 1)))))"

text \<open>
  \<open>numpy.searchsorted(zz, v, side='left')\<close> on a sorted array: the number of elements
  before the first one that is not less than \<open>v\<close>.
\<close>

definition searchsorted_left :: "real list \<Rightarrow> real \<Rightarrow> nat" where
  "searchsorted_left zz v = length (takeWhile (\<lambda>u. u < v) zz)"

definition discrete_ksD :: "real list \<Rightarrow> real \<Rightarrow> fl \<Rightarrow> error + fl" where
  "discrete_ksD data xmin alpha =
     (let zz = sort (mask_select data (map (\<lambda>v. xmin \<le> v) data));
          nn = length zz
      in if nn < 2 then Inr PInf
         else
           let model_cdf = map (\<lambda>v. fl_sub (Fin 1)
                                  (fl_pow (fl_div (Fin v) (Fin xmin)) (fl_sub (Fin 1) alpha))) zz;
               data_cdf = map (\<lambda>v. fl_div (Fin (real (searchsorted_left zz v))) (Fin (real nn))) zz
           in np_max (map2 (\<lambda>m d. fl_abs (fl_sub m d)) model_cdf data_cdf))"

section \<open>The environment and the options of a fit\<close>

text \<open>
  What the module finds at import time and the library functions it calls without
  defining them: the compiled back ends \<open>fplfit\<close> and \<open>cplfit\<close> (each returns the pair
  \<open>(kstest_values, alpha_values)\<close>), scipy's Hurwitz zeta function and the survival
  function of the one-sided Kolmogorov-Smirnov distribution. The model assumes nothing
  about them.
\<close>

record env =
  fortranOK :: bool
  cyOK :: bool
  scipyOK :: bool
  fplfit :: "real list \<Rightarrow> fl list \<times> fl list"
  cplfit :: "real list \<Rightarrow> real list \<Rightarrow> nat list \<Rightarrow> fl list \<times> fl list"
  zeta :: "fl \<Rightarrow> real \<Rightarrow> fl"
  ksone_sf :: "fl \<Rightarrow> nat \<Rightarrow> fl"

text \<open>The keyword arguments of \<open>plfit.plfit\<close>, with their defaults.\<close>

record config =
  opt_nosmall :: bool
  opt_finite :: bool
  opt_quiet :: bool
  opt_silent :: bool
  opt_usefortran :: bool
  opt_usecy :: bool
  opt_xmin :: "real option"
  opt_verbose :: bool
  opt_discrete :: "bool option"
  opt_discrete_approx :: bool
  opt_discrete_n_alpha :: nat
  opt_skip_consistency_check :: bool

definition default_config :: config where
  "default_config =
     \<lparr> opt_nosmall = True, opt_finite = False, opt_quiet = False, opt_silent = False,
       opt_usefortran = False, opt_usecy = False, opt_xmin = None, opt_verbose = False,
       opt_discrete = None, opt_discrete_approx = True, opt_discrete_n_alpha = 1000,
       opt_skip_consistency_check = False \<rparr>"

text \<open>The lines the fit prints, without their numbers' formatting.\<close>

datatype msg =
  Removed_negative nat
  | Using_continuous
  | Using_discrete
  | Executed_fortran
  | Executed_cython
  | Executed_python
  | Not_enough_data
  | Finite_size_bias nat
  | Only_one_point
  | Fit_summary
  | Discrete_summary

text \<open>
  The attributes of the fit object after \<open>plfit.plfit\<close> has returned, the pair it
  returns, and what it has printed. An attribute that a path does not set is \<open>None\<close>.
\<close>

record fit =
  s_data :: "real list"
  s_nunique :: nat
  s_xmins :: "real list"
  s_alpha_values :: "fl list option"
  s_xmin_kstest :: "fl list option"
  s_ks_prob_all :: "fl list option"
  s_sigma :: "fl list option"
  s_likelihood :: fl
  s_xmin :: real
  s_alpha :: fl
  s_alphaerr :: fl
  s_ks :: fl
  s_ks_prob :: "fl option"
  s_ngtx :: nat
  returned :: "real \<times> fl"
  printed :: "msg list"

section \<open>The discrete likelihood and the discrete selector\<close>

text \<open>\<open>numpy.linspace(start, stop, num)\<close> with the end point included.\<close>

definition linspace :: "fl \<Rightarrow> fl \<Rightarrow> nat \<Rightarrow> fl list" where
  "linspace start stop num =
     (if num = 0 then []
      else if num = 1 then [start]
      else
        (let step = fl_div (fl_sub stop start) (Fin (real (num - 1)));
             y = map (\<lambda>i. fl_add (fl_mul (Fin (real i)) step) start) [0..<num]
         in y[num - 1 := stop]))"

fun sequence_err :: "(error + 'a) list \<Rightarrow> error + 'a list" where
  "sequence_err [] = Inr []"
| "sequence_err (r # rs) =
     (case r of
        Inl e \<Rightarrow> Inl e
      | Inr v \<Rightarrow> (case sequence_err rs of Inl e \<Rightarrow> Inl e | Inr vs \<Rightarrow> Inr (v # vs)))"

definition discrete_likelihood :: "env \<Rightarrow> real list \<Rightarrow> real \<Rightarrow> fl \<Rightarrow> error + fl" where
  "discrete_likelihood e data xmin alpha =
     (if \<not> scipyOK e then Inl ImportError
      else
        (let zz = mask_select data (map (\<lambda>v. xmin \<le> v) data);
             nn = length zz;
             sum_log_data = np_sum (map (\<lambda>v. fl_log (Fin v)) zz);
             zeta_v = zeta e alpha xmin
         in Inr (fl_sub (fl_mul (Fin (- 1 * real nn)) (fl_log zeta_v))
                   (fl_mul alpha sum_log_data))))"

definition discrete_likelihood_vector ::
  "env \<Rightarrow> real list \<Rightarrow> real \<Rightarrow> fl \<times> fl \<Rightarrow> nat \<Rightarrow> error + fl list" where
  "discrete_likelihood_vector e data xmin alpharange n_alpha =
     (if \<not> scipyOK e then Inl ImportError
      else
        (let zz = mask_select data (map (\<lambda>v. xmin \<le> v) data);
             nn = length zz;
             alpha_vector = linspace (fst alpharange) (snd alpharange) n_alpha;
             sum_log_data = np_sum (map (\<lambda>v. fl_log (Fin v)) zz);
             zeta_vector = map (\<lambda>a. zeta e a xmin) alpha_vector
         in Inr (map2 (\<lambda>zv a. fl_sub (fl_mul (Fin (- 1 * real nn)) (fl_log zv))
                                  (fl_mul a sum_log_data))
                   zeta_vector alpha_vector)))"

definition discrete_max_likelihood_arg ::
  "env \<Rightarrow> real list \<Rightarrow> real \<Rightarrow> fl \<times> fl \<Rightarrow> nat \<Rightarrow> error + nat" where
  "discrete_max_likelihood_arg e data xmin alpharange n_alpha =
     (case discrete_likelihood_vector e data xmin alpharange n_alpha of
        Inl err \<Rightarrow> Inl err
      | Inr likelihoods \<Rightarrow> argmax likelihoods)"

definition most_likely_alpha ::
  "env \<Rightarrow> real list \<Rightarrow> real \<Rightarrow> fl \<times> fl \<Rightarrow> nat \<Rightarrow> error + fl" where
  "most_likely_alpha e data xmin alpharange n_alpha =
     (let alpha_vector = linspace (fst alpharange) (snd alpharange) n_alpha
      in case discrete_max_likelihood_arg e data xmin alpharange n_alpha of
           Inl err \<Rightarrow> Inl err
         | Inr k \<Rightarrow> np_get alpha_vector k)"

text \<open>
  The method \<open>plfit.discrete_best_alpha\<close>. It reads \<open>self.data\<close> and sets the fit's
  attributes; \<open>nunique\<close> and \<open>out\<close> are what \<open>plfit.plfit\<close> has set and printed before
  the call. The assignment \<open>ksvalues[isnan(ksvalues)] = inf\<close> changes the array that
  \<open>self._xmin_kstest\<close> already names. With \<open>finite\<close> set, the correction reads the local
  variable \<open>n\<close>, which is assigned only further down: Python raises
  \<open>UnboundLocalError\<close> there.
\<close>

definition discrete_best_alpha ::
  "env \<Rightarrow> real list \<Rightarrow> nat \<Rightarrow> msg list \<Rightarrow> nat \<Rightarrow> bool \<Rightarrow> bool \<Rightarrow> bool \<Rightarrow> error + fit" where
  "discrete_best_alpha e data nunique out n_alpha approximate verbose finite_corr =
     (let xmins = np_unique data;
          alpha_approx = map (discrete_alpha_mle data) xmins;
          alpharanges = map (\<lambda>a. (fl_mul (Fin 0.9) a, fl_mul (Fin 1.1) a)) alpha_approx
      in case (if approximate then Inr alpha_approx
               else sequence_err
                      (map2 (\<lambda>xmin ar. most_likely_alpha e data xmin ar n_alpha)
                         xmins alpharanges)) of
           Inl err \<Rightarrow> Inl err
         | Inr alpha_of_xmin \<Rightarrow>
         (case sequence_err (map2 (\<lambda>xmin alpha. discrete_ksD data xmin alpha)
                               xmins alpha_of_xmin) of
           Inl err \<Rightarrow> Inl err
         | Inr ksvalues0 \<Rightarrow>
         (let ksvalues = map (\<lambda>k. if isnan k then PInf else k) ksvalues0
          in case argmin ksvalues of
               Inl err \<Rightarrow> Inl err
             | Inr best_index \<Rightarrow>
             (case np_get alpha_of_xmin best_index of
               Inl err \<Rightarrow> Inl err
             | Inr best_alpha \<Rightarrow>
             (case np_get xmins best_index of
               Inl err \<Rightarrow> Inl err
             | Inr best_xmin \<Rightarrow>
             (case np_get ksvalues best_index of
               Inl err \<Rightarrow> Inl err
             | Inr best_ks \<Rightarrow>
             (case discrete_likelihood e data best_xmin best_alpha of
               Inl err \<Rightarrow> Inl err
             | Inr best_likelihood \<Rightarrow>
               if finite_corr then Inl UnboundLocalError
               else
                 (let n = count_nonzero (map (\<lambda>v. best_xmin \<le> v) data);
                      alphaerr = fl_div (fl_sub best_alpha (Fin 1)) (fl_sqrt (Fin (real n)))
                  in Inr \<lparr> s_data = data, s_nunique = nunique, s_xmins = xmins,
                           s_alpha_values = Some alpha_of_xmin,
                           s_xmin_kstest = Some ksvalues,
                           s_ks_prob_all = None, s_sigma = None,
                           s_likelihood = best_likelihood, s_xmin = best_xmin,
                           s_alpha = best_alpha, s_alphaerr = alphaerr, s_ks = best_ks,
                           s_ks_prob = (if scipyOK e then Some (ksone_sf e best_ks n)
                                        else None),
                           s_ngtx = n, returned = (best_xmin, best_alpha),
                           printed = out @ (if verbose then [Discrete_summary] else [])
                         \<rparr>))))))))"

section \<open>The continuous selector\<close>

text \<open>
  Numpy's broadcasting of two one-dimensional arrays: equal lengths go element by
  element, an array of length one is repeated, other lengths raise \<open>ValueError\<close>.
\<close>

definition broadcast2 :: "('a \<Rightarrow> 'b \<Rightarrow> 'c) \<Rightarrow> 'a list \<Rightarrow> 'b list \<Rightarrow> error + 'c list" where
  "broadcast2 f xs ys =
     (if length xs = length ys then Inr (map2 f xs ys)
      else if length xs = 1 then Inr (map (f (hd xs)) ys)
      else if length ys = 1 then Inr (map (\<lambda>x. f x (hd ys)) xs)
      else Inl ValueError)"

text \<open>
  The per-candidate statistics from one of the three back ends. The Python back end
  maps \<open>alpha_gen(z)\<close> and \<open>kstest_gen(z)\<close> over the candidates.
\<close>

definition candidate_statistics ::
  "env \<Rightarrow> config \<Rightarrow> real list \<Rightarrow> real list \<Rightarrow> nat list
     \<Rightarrow> error + (fl list \<times> fl list \<times> msg list)" where
  "candidate_statistics e c z xmins argxmins =
     (if opt_usefortran c \<and> fortranOK e then
        (case fplfit e z of (kstest_values, alpha_values) \<Rightarrow>
           Inr (kstest_values, alpha_values,
                if \<not> opt_quiet c then [Executed_fortran] else []))
      else if opt_usecy c \<and> cyOK e then
        (case cplfit e z xmins argxmins of (kstest_values, alpha_values) \<Rightarrow>
           Inr (kstest_values, alpha_values,
                if \<not> opt_quiet c then [Executed_cython] else []))
      else
        (let alpha_values = map (alpha_gen z) xmins
         in case sequence_err (map (kstest_gen z False False) xmins) of
              Inl err \<Rightarrow> Inl err
            | Inr kstest_values \<Rightarrow>
                Inr (kstest_values, alpha_values,
                     if \<not> opt_quiet c then [Executed_python] else [])))"

text \<open>\<open>sigma = (alpha_values-1)/np.sqrt(len(z)-argxmins)\<close>\<close>

definition sigma_values :: "fl list \<Rightarrow> nat \<Rightarrow> nat list \<Rightarrow> error + fl list" where
  "sigma_values alpha_values len_z argxmins =
     broadcast2 (\<lambda>a k. fl_div (fl_sub a (Fin 1)) (fl_sqrt (Fin (real (len_z - k)))))
       alpha_values argxmins"

text \<open>
  The bound \<open>nmax\<close> of the usable candidate range \<open>kstest_values[:nmax]\<close>, and the
  line printed on the way.
\<close>

definition select_nmax :: "bool \<Rightarrow> bool \<Rightarrow> fl list \<Rightarrow> nat \<Rightarrow> error + int \<times> msg list" where
  "select_nmax nosmall silent sigma_v len_xmins =
     (if nosmall then
        (let goodvals = map (\<lambda>s. fl_lt s (Fin 0.1)) sigma_v
         in case argmin_bool goodvals of
              Inl err \<Rightarrow> Inl err
            | Inr nmax \<Rightarrow>
                if nmax \<le> 0
                then Inr (int len_xmins - 1, if \<not> silent then [Not_enough_data] else [])
                else Inr (int nmax, []))
      else Inr (int len_xmins - 1, []))"

record selection =
  sel_alpha_values :: "fl list"
  sel_kstest_values :: "fl list"
  sel_sigma :: "fl list"
  sel_nmax :: int
  sel_best_ks_index :: nat
  sel_xmin :: real
  sel_printed :: "msg list"

definition plfit_select ::
  "env \<Rightarrow> config \<Rightarrow> real list \<Rightarrow> real list \<Rightarrow> nat list \<Rightarrow> error + selection" where
  "plfit_select e c z xmins argxmins =
     (case candidate_statistics e c z xmins argxmins of
        Inl err \<Rightarrow> Inl err
      | Inr (kstest_values, alpha_values, out1) \<Rightarrow>
          if \<not> opt_quiet c \<and> opt_usefortran c \<and> \<not> fortranOK e then Inl ImportError
          else if \<not> opt_quiet c \<and> opt_usecy c \<and> \<not> cyOK e then Inl ImportError
          else
            (case sigma_values alpha_values (length z) argxmins of
               Inl err \<Rightarrow> Inl err
             | Inr sigma_v \<Rightarrow>
             (case select_nmax (opt_nosmall c) (opt_silent c) sigma_v (length xmins) of
               Inl err \<Rightarrow> Inl err
             | Inr (nmax, out2) \<Rightarrow>
             (case argmin (py_take nmax kstest_values) of
               Inl err \<Rightarrow> Inl err
             | Inr best_ks_index \<Rightarrow>
             (case np_get xmins best_ks_index of
               Inl err \<Rightarrow> Inl err
             | Inr xmin \<Rightarrow>
                 Inr \<lparr> sel_alpha_values = alpha_values, sel_kstest_values = kstest_values,
                       sel_sigma = sigma_v, sel_nmax = nmax,
                       sel_best_ks_index = best_ks_index, sel_xmin = xmin,
                       sel_printed = out1 @ out2 \<rparr>)))))"


text \<open>
  \<open>numpy.testing.assert_almost_equal(actual, desired, decimal=4)\<close> on two scalars:
  \<open>True\<close> when the assertion passes. Values that are not both finite must be both
  NaN or equal; finite values must differ by less than \<open>1.5 * 10 ** (-4)\<close>.
\<close>

definition assert_almost_equal :: "fl \<Rightarrow> fl \<Rightarrow> bool" where
  "assert_almost_equal actual desired =
     (if \<not> (isfinite desired \<and> isfinite actual)
      then (if isnan desired \<or> isnan actual then isnan desired \<and> isnan actual
            else desired = actual)
      else fl_lt (fl_abs (fl_sub desired actual)) (Fin (15 / 100000)))"

text \<open>The alpha recomputed from the selected threshold, and the sanity check.\<close>

definition direct_alpha :: "real list \<Rightarrow> real \<Rightarrow> fl" where
  "direct_alpha z xmin =
     (let n = count_nonzero (map (\<lambda>v. xmin \<le> v) z)
      in fl_add (Fin 1)
           (fl_div (Fin (real n))
              (np_sum (map (\<lambda>v. fl_log (fl_div (Fin v) (Fin xmin)))
                         (mask_select z (map (\<lambda>v. xmin \<le> v) z))))))"

definition consistency_check :: "config \<Rightarrow> real list \<Rightarrow> selection \<Rightarrow> error + unit" where
  "consistency_check c z s =
     (let alpha = direct_alpha z (sel_xmin s)
      in if \<not> opt_skip_consistency_check c then
           (case np_get (sel_alpha_values s) (sel_best_ks_index s) of
              Inl err \<Rightarrow> Inl err
            | Inr a \<Rightarrow> if assert_almost_equal alpha a then Inr () else Inl AssertionError)
         else Inr ())"

section \<open>The fit orchestrator\<close>

text \<open>
  The part of \<open>plfit.plfit\<close> after the threshold is known (selected, or given by the
  caller): \<open>z0\<close> is the sorted sample, \<open>sel\<close> what the search has stored, \<open>out\<close> what
  has been printed. The exponent, the KS distance and the log-likelihood of the final
  fit are the expressions of the source, one definition each; \<open>1./n\<close> in the
  finite-sample correction divides Python numbers and raises on \<open>n = 0\<close>.
\<close>

definition final_alpha :: "bool \<Rightarrow> real list \<Rightarrow> real \<Rightarrow> error + fl" where
  "final_alpha finite_corr z xmin =
     (let n = length z;
          alpha = fl_add (Fin 1)
                    (fl_div (Fin (real n))
                       (np_sum (map (\<lambda>v. fl_log (fl_div (Fin v) (Fin xmin))) z)))
      in if finite_corr then
           (if n = 0 then Inl ZeroDivisionError
            else Inr (fl_add (fl_div (fl_mul alpha (Fin (real n - 1))) (Fin (real n)))
                        (Fin (1 / real n))))
         else Inr alpha)"

definition final_ks :: "real list \<Rightarrow> real \<Rightarrow> fl \<Rightarrow> error + fl" where
  "final_ks z xmin alpha =
     (let n = length z
      in np_max
           (map2 (\<lambda>i v. fl_abs
                     (fl_sub (fl_div (Fin (real i)) (Fin (real n)))
                        (fl_sub (Fin 1)
                           (fl_pow (fl_div (Fin xmin) (Fin v)) (fl_sub alpha (Fin 1))))))
              [0..<n] z))"

definition final_likelihood :: "real list \<Rightarrow> real \<Rightarrow> fl \<Rightarrow> fl" where
  "final_likelihood z xmin alpha =
     fl_sub
       (fl_mul (Fin (real (length z))) (fl_log (fl_div (fl_sub alpha (Fin 1)) (Fin xmin))))
       (fl_mul alpha (np_sum (map (\<lambda>v. fl_log (fl_div (Fin v) (Fin xmin))) z)))"

definition ks_prob_all :: "env \<Rightarrow> fl list \<Rightarrow> fl list" where
  "ks_prob_all e kstest_values =
     map2 (\<lambda>ii D_stat. ksone_sf e D_stat (length kstest_values - ii))
       [0..<length kstest_values] kstest_values"

definition plfit_final ::
  "env \<Rightarrow> config \<Rightarrow> real list \<Rightarrow> real list \<Rightarrow> real list \<Rightarrow> selection option \<Rightarrow> msg list
     \<Rightarrow> real \<Rightarrow> error + fit" where
  "plfit_final e c data z0 xmins sel out xmin =
     (let z = mask_select z0 (map (\<lambda>v. xmin \<le> v) z0);
          n = length z
      in case final_alpha (opt_finite c) z xmin of
           Inl err \<Rightarrow> Inl err
         | Inr alpha \<Rightarrow>
           (let out1 = out @ (if n < 50 \<and> \<not> opt_finite c \<and> \<not> opt_silent c
                              then [Finite_size_bias n] else [])
            in case final_ks z xmin alpha of
                 Inl err \<Rightarrow> Inl err
               | Inr ks \<Rightarrow>
                 (let L = final_likelihood z xmin alpha;
                      st = \<lparr> s_data = data, s_nunique = length xmins, s_xmins = xmins,
                             s_alpha_values = map_option sel_alpha_values sel,
                             s_xmin_kstest = map_option sel_kstest_values sel,
                             s_ks_prob_all =
                               (if scipyOK e
                                then map_option (\<lambda>s. ks_prob_all e (sel_kstest_values s)) sel
                                else None),
                             s_sigma = map_option sel_sigma sel,
                             s_likelihood = L, s_xmin = xmin, s_alpha = alpha,
                             s_alphaerr = fl_div (fl_sub alpha (Fin 1)) (fl_sqrt (Fin (real n))),
                             s_ks = ks,
                             s_ks_prob = (if scipyOK e then Some (ksone_sf e ks n) else None),
                             s_ngtx = n, returned = (xmin, alpha), printed = out1 \<rparr>
                  in if n = 1 then
                       Inr (st\<lparr> s_alpha := Fin 0, s_alphaerr := Fin 0, s_likelihood := Fin 0,
                                s_ks := Fin 0, s_ks_prob := Some (Fin 0),
                                returned := (xmin, Fin 0),
                                printed := out1 @ (if \<not> opt_silent c then [Only_one_point]
                                                   else []) \<rparr>)
                     else if isnan L \<or> isnan alpha then Inl ValueError
                     else Inr (st\<lparr> printed := out1 @ (if \<not> opt_quiet c then [Fit_summary]
                                                        else []) \<rparr>))))"

text \<open>
  The choice between the continuous and the discrete fitter when the caller has not
  made it.
\<close>

definition classify :: "bool option \<Rightarrow> nat \<Rightarrow> nat \<Rightarrow> bool \<Rightarrow> bool option \<times> msg list" where
  "classify discrete nunique len_x verbose =
     (if nunique = len_x \<and> discrete = None
      then (Some False, if verbose then [Using_continuous] else [])
      else if nunique < len_x \<and> discrete = None
      then (Some True, if verbose then [Using_discrete] else [])
      else (discrete, []))"

text \<open>
  The method \<open>plfit.plfit\<close> on a fit object whose \<open>data\<close> attribute is \<open>x\<close>. The
  test \<open>np.isnan(xmin)\<close> of the source is on a threshold that is a member of the sample
  or the caller's number, a real in this model.
\<close>

definition any_negative :: "real list \<Rightarrow> bool" where
  "any_negative x = list_ex (\<lambda>v. v < 0) x"

definition plfit :: "env \<Rightarrow> config \<Rightarrow> real list \<Rightarrow> error + fit" where
  "plfit e c x =
     (if any_negative x then Inl ValueError
      else
        (let z = sort x in
         case np_unique_index z of (xmins, argxmins) \<Rightarrow>
         (let nunique = length xmins in
          case classify (opt_discrete c) nunique (length x) (opt_verbose c) of
            (discrete, out0) \<Rightarrow>
            (case opt_xmin c of
               None \<Rightarrow>
                 if discrete = Some True then
                   discrete_best_alpha e x nunique out0 (opt_discrete_n_alpha c)
                     (opt_discrete_approx c) (opt_verbose c) (opt_finite c)
                 else
                   (case plfit_select e c z xmins argxmins of
                      Inl err \<Rightarrow> Inl err
                    | Inr s \<Rightarrow>
                      (case consistency_check c z s of
                         Inl err \<Rightarrow> Inl err
                       | Inr _ \<Rightarrow>
                           plfit_final e c x z xmins (Some s) (out0 @ sel_printed s)
                             (sel_xmin s)))
             | Some xmin \<Rightarrow> plfit_final e c x z xmins None out0 xmin))))"

text \<open>
  The condition under which \<open>plfit.plfit\<close> hands the fit to the discrete selector: no
  threshold given, and the discrete fitter asked for or chosen by the classification.
\<close>

definition discrete_chosen :: "config \<Rightarrow> real list \<Rightarrow> bool" where
  "discrete_chosen c x =
     (opt_xmin c = None
      \<and> fst (classify (opt_discrete c) (length (fst (np_unique_index (sort x)))) (length x)
                (opt_verbose c)) = Some True)"

text \<open>
  The constructor \<open>plfit.__init__(x, **kwargs)\<close>: the data it stores and the line it
  prints, and the fit it then runs.
\<close>

definition init_data :: "real list \<Rightarrow> real list \<times> msg list" where
  "init_data x =
     (if 0 < count_nonzero (map (\<lambda>v. v < 0) x)
      then (mask_select x (map (\<lambda>v. 0 < v) x),
            [Removed_negative (count_nonzero (map (\<lambda>v. v < 0) x))])
      else (x, []))"

definition plfit_init :: "env \<Rightarrow> config \<Rightarrow> real list \<Rightarrow> error + fit" where
  "plfit_init e c x =
     (case init_data x of (data, out) \<Rightarrow>
        (case plfit e c data of
           Inl err \<Rightarrow> Inl err
         | Inr st \<Rightarrow> Inr (st\<lparr> printed := out @ printed st \<rparr>)))"


text \<open>
  The words of the specification for the same primitive: over the points \<open>x\<^sub>i \<ge> xmin\<close>
  and their count \<open>n\<close>.
\<close>

definition qualifying :: "real list \<Rightarrow> real \<Rightarrow> real list" where
  "qualifying x xmin = filter (\<lambda>v. xmin \<le> v) x"

section \<open>Properties\<close>

lemma mask_select_map: "mask_select xs (map P xs) = filter P xs"
  by (induction xs) (simp_all add: mask_select_def)

lemma count_nonzero_map: "count_nonzero (map P xs) = length (filter P xs)"
  by (induction xs) (simp_all add: count_nonzero_def)

lemma foldl_fl_add_Fin: "foldl fl_add (Fin a) (map Fin rs) = Fin (a + sum_list rs)"
  by (induction rs arbitrary: a) (simp_all add: add.assoc)

lemma np_sum_Fin: "np_sum (map Fin rs) = Fin (sum_list rs)"
  by (simp add: np_sum_def foldl_fl_add_Fin)

lemma log_ratio_Fin:
  assumes "0 < xmin" and "\<forall>v\<in>set q. xmin \<le> v"
  shows "map (\<lambda>v. fl_log (fl_div (Fin v) (Fin xmin))) q = map Fin (map (\<lambda>v. ln (v / xmin)) q)"
  using assms by (induction q) (auto simp: not_less dest: order.strict_trans2)

lemma elem_le_sum_list:
  fixes ys :: "real list"
  assumes "\<forall>y\<in>set ys. 0 \<le> y" and "y0 \<in> set ys"
  shows "y0 \<le> sum_list ys"
  using assms
proof (induction ys)
  case Nil
  then show ?case by simp
next
  case (Cons y ys)
  have "0 \<le> sum_list ys" using Cons.prems(1) by (simp add: sum_list_nonneg)
  then show ?case using Cons by auto
qed

lemma np_sum_log_ratio:
  assumes "0 < xmin" and "\<forall>v\<in>set q. xmin \<le> v"
  shows "np_sum (map (\<lambda>v. fl_log (fl_div (Fin v) (Fin xmin))) q)
         = Fin (\<Sum>v\<leftarrow>q. ln (v / xmin))"
proof -
  have "map (\<lambda>v. fl_log (fl_div (Fin v) (Fin xmin))) q
        = map Fin (map (\<lambda>v. ln (v / xmin)) q)"
    using assms by (rule log_ratio_Fin)
  then show ?thesis by (simp only: np_sum_Fin)
qed

lemma sum_log_ratio_pos:
  assumes "0 < (xmin::real)" and "\<forall>v\<in>set q. xmin \<le> v" and "\<exists>v\<in>set q. xmin < v"
  shows "0 < (\<Sum>v\<leftarrow>q. ln (v / xmin))"
proof -
  have nonneg: "\<forall>v\<in>set q. 0 \<le> ln (v / xmin)"
  proof
    fix v assume "v \<in> set q"
    then have "xmin \<le> v" using assms(2) by blast
    then have "1 \<le> v / xmin" using assms(1) by (simp add: field_simps)
    then show "0 \<le> ln (v / xmin)" by simp
  qed
  from assms(3) obtain w where w: "w \<in> set q" "xmin < w" by blast
  then have "1 < w / xmin" using assms(1) by (simp add: field_simps)
  then have "0 < ln (w / xmin)" by simp
  moreover have "ln (w / xmin) \<le> (\<Sum>v\<leftarrow>q. ln (v / xmin))"
    using w(1) nonneg by (intro elem_le_sum_list) auto
  ultimately show ?thesis by linarith
qed

text \<open>
  C3. For every sample and every threshold, \<open>alpha_gen\<close> returns
  \<open>1 + n / sum(log(x\<^sub>i / xmin))\<close> over the points \<open>x\<^sub>i \<ge> xmin\<close> (\<open>n\<close> their count)
  when \<open>n \<ge> 2\<close>, and the sentinel \<open>0\<close> when fewer than two points qualify. The first
  conjunct is the formula in the fitter's arithmetic, for every input; the second is
  the same value in the reals, where the threshold is positive and some point lies
  strictly above it (otherwise the sum is zero and the quotient is infinite).
\<close>

theorem alpha_gen_formula:
  "alpha_gen x xmin =
     (if 2 \<le> length (qualifying x xmin)
      then fl_add (Fin 1)
             (fl_div (Fin (real (length (qualifying x xmin))))
                (np_sum (map (\<lambda>v. fl_log (fl_div (Fin v) (Fin xmin))) (qualifying x xmin))))
      else Fin 0)
   \<and> (0 < xmin \<and> 2 \<le> length (qualifying x xmin) \<and> (\<exists>v\<in>set x. xmin < v)
        \<longrightarrow> alpha_gen x xmin =
            Fin (1 + real (length (qualifying x xmin))
                       / (\<Sum>v\<leftarrow>qualifying x xmin. ln (v / xmin))))"
proof (intro conjI impI)
  show "alpha_gen x xmin =
     (if 2 \<le> length (qualifying x xmin)
      then fl_add (Fin 1)
             (fl_div (Fin (real (length (qualifying x xmin))))
                (np_sum (map (\<lambda>v. fl_log (fl_div (Fin v) (Fin xmin))) (qualifying x xmin))))
      else Fin 0)"
    by (simp add: alpha_gen_def qualifying_def mask_select_map count_nonzero_map Let_def
        not_less)
next
  assume h: "0 < xmin \<and> 2 \<le> length (qualifying x xmin) \<and> (\<exists>v\<in>set x. xmin < v)"
  let ?q = "qualifying x xmin"
  have q: "\<forall>v\<in>set ?q. xmin \<le> v" by (simp add: qualifying_def)
  have ex: "\<exists>v\<in>set ?q. xmin < v" using h by (auto simp: qualifying_def)
  have pos: "0 < (\<Sum>v\<leftarrow>?q. ln (v / xmin))"
    using sum_log_ratio_pos[OF _ q ex] h by simp
  have "np_sum (map (\<lambda>v. fl_log (fl_div (Fin v) (Fin xmin))) ?q)
        = Fin (\<Sum>v\<leftarrow>?q. ln (v / xmin))"
    using h q by (intro np_sum_log_ratio) simp_all
  then show "alpha_gen x xmin =
      Fin (1 + real (length ?q) / (\<Sum>v\<leftarrow>?q. ln (v / xmin)))"
    using h pos
    by (simp add: alpha_gen_def mask_select_map count_nonzero_map Let_def not_less
        flip: qualifying_def)
qed

theorem alpha_gen_formula_witness:
  "alpha_gen [1, 2, 4] 1 = Fin (1 + 3 / (ln 1 + (ln 2 + (ln 4 + 0))))
   \<and> alpha_gen [1, 2, 4] 3 = Fin 0"
  using alpha_gen_formula[of "[1, 2, 4]" 1, THEN conjunct2]
    alpha_gen_formula[of "[1, 2, 4]" 3, THEN conjunct1]
  by (simp add: qualifying_def)

subsection \<open>The constructor\<close>

lemma init_data_cases:
  "init_data x =
     (if \<exists>v\<in>set x. v < 0
      then (filter (\<lambda>v. 0 < v) x, [Removed_negative (length (filter (\<lambda>v. v < 0) x))])
      else (x, []))"
  by (auto simp: init_data_def mask_select_map count_nonzero_map filter_empty_conv)

text \<open>
  C10, as the code has it. The constructor filters only when the input holds at least
  one negative value: then it keeps exactly the values \<open>x > 0\<close> (zeros go with the
  negatives, and are not counted in the printed line). An input without a negative value
  is stored as it is, zeros included. Either way the stored data holds no negative
  value, so the test that guards the \<open>ValueError\<close> at the start of \<open>plfit.plfit\<close> is
  false for every fit started through the constructor; the stored data is strictly
  positive when the filter has run.
\<close>

theorem init_data_no_negative:
  "init_data x =
     (if \<exists>v\<in>set x. v < 0
      then (filter (\<lambda>v. 0 < v) x, [Removed_negative (length (filter (\<lambda>v. v < 0) x))])
      else (x, []))
   \<and> \<not> any_negative (fst (init_data x))
   \<and> ((\<exists>v\<in>set x. v < 0) \<longrightarrow> (\<forall>v\<in>set (fst (init_data x)). 0 < v))"
  by (auto simp: init_data_cases any_negative_def list_ex_iff)

theorem init_data_no_negative_witness:
  "init_data [- 1, 0, 2] = ([2], [Removed_negative 1])
   \<and> \<not> any_negative (fst (init_data [- 1, 0, 2]))
   \<and> list_all (\<lambda>v. 0 < v) (fst (init_data [- 1, 0, 2]))"
  using init_data_no_negative[of "[- 1, 0, 2]"] by (simp add: list_all_iff any_negative_def)

text \<open>
  C10 as stated fails: the input \<open>[0, 1, 2]\<close> has no negative value, the filter does
  not run, and the stored data keeps the zero.
\<close>

theorem init_data_keeps_zero:
  "fst (init_data [0, 1, 2]) = [0, 1, 2]
   \<and> \<not> list_all (\<lambda>v. 0 < v) (fst (init_data [0, 1, 2]))"
  by (simp add: init_data_cases)

subsection \<open>The discrete maximum-likelihood exponent\<close>

text \<open>
  C5. For every data set and every threshold, \<open>discrete_alpha_mle\<close> returns
  \<open>1 + n * (sum(log(x\<^sub>i / (xmin - 0.5)))) ** -1\<close> over the points \<open>x\<^sub>i \<ge> xmin\<close> when
  \<open>n \<ge> 2\<close>, and \<open>0\<close> when fewer than two points qualify. The first conjunct is the
  formula in the fitter's arithmetic, for every input; the second is its value in the
  reals for a threshold above one half, where every logarithm is positive.
\<close>

theorem discrete_alpha_mle_formula:
  "discrete_alpha_mle data xmin =
     (if 2 \<le> length (qualifying data xmin)
      then fl_add (Fin 1)
             (fl_mul (Fin (real (length (qualifying data xmin))))
                (fl_pow
                   (np_sum (map (\<lambda>v. fl_log (fl_div (Fin v) (Fin (xmin - 0.5))))
                              (qualifying data xmin)))
                   (Fin (- 1))))
      else Fin 0)
   \<and> (1 / 2 < xmin \<and> 2 \<le> length (qualifying data xmin)
        \<longrightarrow> discrete_alpha_mle data xmin =
            Fin (1 + real (length (qualifying data xmin))
                       * inverse (\<Sum>v\<leftarrow>qualifying data xmin. ln (v / (xmin - 1 / 2)))))"
proof (intro conjI impI)
  show "discrete_alpha_mle data xmin =
     (if 2 \<le> length (qualifying data xmin)
      then fl_add (Fin 1)
             (fl_mul (Fin (real (length (qualifying data xmin))))
                (fl_pow
                   (np_sum (map (\<lambda>v. fl_log (fl_div (Fin v) (Fin (xmin - 0.5))))
                              (qualifying data xmin)))
                   (Fin (- 1))))
      else Fin 0)"
    by (simp add: discrete_alpha_mle_def qualifying_def mask_select_map count_nonzero_map
        Let_def not_less)
next
  assume h: "1 / 2 < xmin \<and> 2 \<le> length (qualifying data xmin)"
  let ?q = "qualifying data xmin"
  let ?d = "xmin - 1 / 2"
  have d: "0 < ?d" using h by simp
  have q: "\<forall>v\<in>set ?q. ?d \<le> v" by (auto simp: qualifying_def)
  have "?q \<noteq> []" using h by auto
  then obtain w where w: "w \<in> set ?q" by (cases ?q) auto
  then have "?d < w" by (auto simp: qualifying_def)
  then have ex: "\<exists>v\<in>set ?q. ?d < v" using w by blast
  have pos: "0 < (\<Sum>v\<leftarrow>?q. ln (v / ?d))"
    by (rule sum_log_ratio_pos[OF d q ex])
  have s: "np_sum (map (\<lambda>v. fl_log (fl_div (Fin v) (Fin ?d))) ?q)
        = Fin (\<Sum>v\<leftarrow>?q. ln (v / ?d))"
    by (rule np_sum_log_ratio[OF d q])
  have p: "(\<Sum>v\<leftarrow>?q. ln (v / ?d)) powr (- 1) = inverse (\<Sum>v\<leftarrow>?q. ln (v / ?d))"
    using pos by (simp add: powr_minus)
  have "discrete_alpha_mle data xmin =
      fl_add (Fin 1) (fl_mul (Fin (real (length ?q)))
         (fl_pow (np_sum (map (\<lambda>v. fl_log (fl_div (Fin v) (Fin ?d))) ?q)) (Fin (- 1))))"
    using h
    by (simp add: discrete_alpha_mle_def mask_select_map count_nonzero_map Let_def not_less
        flip: qualifying_def)
  also have "\<dots> = Fin (1 + real (length ?q) * inverse (\<Sum>v\<leftarrow>?q. ln (v / ?d)))"
    unfolding s using pos p by simp
  finally show "discrete_alpha_mle data xmin =
      Fin (1 + real (length ?q) * inverse (\<Sum>v\<leftarrow>?q. ln (v / ?d)))" .
qed

theorem discrete_alpha_mle_formula_witness:
  "discrete_alpha_mle [1, 1, 2] 1 = Fin (1 + 3 * inverse (ln 2 + (ln 2 + (ln 4 + 0))))
   \<and> discrete_alpha_mle [1, 1, 2] 2 = Fin 0"
  using discrete_alpha_mle_formula[of "[1, 1, 2]" 1, THEN conjunct2]
    discrete_alpha_mle_formula[of "[1, 1, 2]" 2, THEN conjunct1]
  by (simp add: qualifying_def)

subsection \<open>The discrete selector\<close>

lemma sequence_err_map_Inr:
  assumes "\<forall>x\<in>set xs. \<exists>v. f x = Inr v"
  shows "sequence_err (map f xs) = Inr (map (\<lambda>x. projr (f x)) xs)"
  using assms by (induction xs) auto

lemma np_max_nonempty: "xs \<noteq> [] \<Longrightarrow> \<exists>k. np_max xs = Inr k"
  by (cases xs) (simp_all add: np_max_def)

lemma discrete_ksD_total: "\<exists>k. discrete_ksD data xmin alpha = Inr k"
proof -
  let ?zz = "sort (mask_select data (map (\<lambda>v. xmin \<le> v) data))"
  show ?thesis
  proof (cases "length ?zz < 2")
    case True
    then show ?thesis by (simp add: discrete_ksD_def Let_def)
  next
    case False
    have "?zz \<noteq> []"
    proof
      assume "?zz = []"
      then have "length ?zz = 0" by (simp only: list.size)
      with False show False by linarith
    qed
    then have "map2 (\<lambda>m d. fl_abs (fl_sub m d))
        (map (\<lambda>v. fl_sub (Fin 1) (fl_pow (fl_div (Fin v) (Fin xmin)) (fl_sub (Fin 1) alpha))) ?zz)
        (map (\<lambda>v. fl_div (Fin (real (searchsorted_left ?zz v))) (Fin (real (length ?zz)))) ?zz)
        \<noteq> []"
      by (cases ?zz) auto
    from np_max_nonempty[OF this] False show ?thesis
      by (simp add: discrete_ksD_def Let_def)
  qed
qed

lemma sequence_err_map2_Inr:
  assumes "\<And>x y. \<exists>v. f x y = Inr v"
  shows "\<exists>vs. sequence_err (map2 f xs ys) = Inr vs \<and> length vs = min (length xs) (length ys)"
proof -
  have "\<forall>p\<in>set (zip xs ys). \<exists>v. (\<lambda>(x, y). f x y) p = Inr v"
    using assms by auto
  from sequence_err_map_Inr[OF this] show ?thesis by auto
qed

lemma argmin_loop_bound: "min_ind < i \<Longrightarrow> argmin_loop mp min_ind i vs < i + length vs"
proof (induction vs arbitrary: mp min_ind i)
  case Nil
  then show ?case by simp
next
  case (Cons v vs)
  have a: "argmin_loop mp min_ind (Suc i) vs < Suc i + length vs"
    using Cons.IH[of min_ind "Suc i" mp] Cons.prems by simp
  have b: "argmin_loop v i (Suc i) vs < Suc i + length vs"
    using Cons.IH[of i "Suc i" v] by simp
  show ?case using a b by simp
qed

lemma argmin_nonempty: "xs \<noteq> [] \<Longrightarrow> \<exists>b. argmin xs = Inr b \<and> b < length xs"
proof (cases xs)
  case Nil
  then show "xs \<noteq> [] \<Longrightarrow> ?thesis" by simp
next
  case (Cons v vs)
  have "argmin_loop v 0 1 vs < 1 + length vs" by (rule argmin_loop_bound) simp
  then show ?thesis using Cons by (auto simp: argmin_def)
qed

lemma unique_mask_length: "length (unique_mask aux) = length aux"
proof -
  have "\<And>p. length (unique_mask_from p aux') = length aux'" for aux'
    by (induction aux') auto
  then show ?thesis by (cases aux) (auto simp: unique_mask_def)
qed

lemma np_unique_nonempty: "data \<noteq> [] \<Longrightarrow> np_unique data \<noteq> []"
proof -
  assume "data \<noteq> []"
  then have "sort data \<noteq> []" by (metis length_sort length_0_conv)
  then obtain v vs where "sort data = v # vs" by (cases "sort data") auto
  then show ?thesis
    by (simp add: np_unique_def unique_mask_def mask_select_def Let_def)
qed

lemma discrete_best_alpha_finite:
  assumes "data \<noteq> []" and "scipyOK e"
  shows "discrete_best_alpha e data nunique out n_alpha True verbose True = Inl UnboundLocalError"
proof -
  let ?xmins = "np_unique data"
  let ?al = "map (discrete_alpha_mle data) ?xmins"
  obtain ks0 where ks0: "sequence_err (map2 (\<lambda>xmin alpha. discrete_ksD data xmin alpha) ?xmins ?al) = Inr ks0"
    and len: "length ks0 = min (length ?xmins) (length ?al)"
    using sequence_err_map2_Inr[of "\<lambda>xmin alpha. discrete_ksD data xmin alpha" ?xmins ?al]
      discrete_ksD_total by blast
  let ?ks = "map (\<lambda>k. if isnan k then PInf else k) ks0"
  have ne: "?ks \<noteq> []" using len np_unique_nonempty[OF assms(1)] by auto
  obtain b where b: "argmin ?ks = Inr b" "b < length ?ks"
    using argmin_nonempty[OF ne] by blast
  have bl: "b < length ?xmins" "b < length ?al" "b < length ks0" using b(2) len by auto
  show ?thesis
    using ks0 b(1) bl assms(2)
    by (simp add: discrete_best_alpha_def Let_def np_get_def discrete_likelihood_def)
qed

lemma plfit_discrete_path:
  assumes "\<not> any_negative x" and "opt_xmin c = None" and "opt_discrete c = None"
    and "length (fst (np_unique_index (sort x))) < length x"
  shows "plfit e c x =
     discrete_best_alpha e x (length (fst (np_unique_index (sort x))))
       (if opt_verbose c then [Using_discrete] else [])
       (opt_discrete_n_alpha c) (opt_discrete_approx c) (opt_verbose c) (opt_finite c)"
  using assms
  by (cases "np_unique_index (sort x)") (simp add: plfit_def classify_def Let_def)

lemma unique_index_ex1:
  "np_unique_index [1, 1, 2, 2, 3, 4, 5, 10, 20, 50]
     = ([1, 2, 3, 4, 5, 10, 20, 50], [0, 2, 4, 5, 6, 7, 8, 9])"
  by (simp add: np_unique_index_def sorted_sort_id unique_mask_def mask_select_def Let_def)

text \<open>
  C6 says that the discrete selector, after the selection, applies the finite-sample
  correction \<open>alpha * (n - 1) / n + 1 / n\<close> and produces a result. The code reads \<open>n\<close>
  in that line before the assignment that defines it: on the sample
  \<open>[1, 1, 2, 2, 3, 4, 5, 10, 20, 50]\<close> (ties, hence the discrete fitter) with
  \<open>finite=True\<close> the fit raises \<open>UnboundLocalError\<close>, as does every discrete fit of a
  non-empty sample with the correction requested (\<open>discrete_best_alpha_finite\<close>).
\<close>

theorem plfit_discrete_finite_example:
  "plfit (e\<lparr>scipyOK := True\<rparr>) (default_config\<lparr>opt_finite := True\<rparr>)
     [1, 1, 2, 2, 3, 4, 5, 10, 20, 50] = Inl UnboundLocalError"
proof -
  let ?x = "[1, 1, 2, 2, 3, 4, 5, 10, 20, 50 :: real]"
  let ?c = "default_config\<lparr>opt_finite := True\<rparr>"
  have s: "sort ?x = ?x" by (simp add: sorted_sort_id)
  have p: "plfit (e\<lparr>scipyOK := True\<rparr>) ?c ?x =
     discrete_best_alpha (e\<lparr>scipyOK := True\<rparr>) ?x (length (fst (np_unique_index (sort ?x))))
       (if opt_verbose ?c then [Using_discrete] else [])
       (opt_discrete_n_alpha ?c) (opt_discrete_approx ?c) (opt_verbose ?c) (opt_finite ?c)"
    by (rule plfit_discrete_path)
      (simp_all add: any_negative_def default_config_def s unique_index_ex1)
  show ?thesis
    unfolding p by (simp add: default_config_def discrete_best_alpha_finite)
qed

lemma unique_index_ex2: "np_unique_index [0, 0, 1] = ([0, 1], [0, 2])"
  by (simp add: np_unique_index_def sorted_sort_id unique_mask_def mask_select_def Let_def)

text \<open>
  C8 says that a NaN in the likelihood, the threshold or the exponent is never returned.
  The discrete path returns before the test that the continuous path makes: on the sample
  \<open>[0, 0, 1]\<close> with the default options the fit returns the exponent NaN.
\<close>

theorem plfit_discrete_nan_example:
  "\<exists>r. plfit (e\<lparr>scipyOK := True\<rparr>) default_config [0, 0, 1] = Inr r
       \<and> isnan (s_alpha r) \<and> returned r = (0, NaN)"
proof -
  let ?x = "[0, 0, 1 :: real]"
  let ?c = "default_config"
  have s: "sort ?x = ?x" by (simp add: sorted_sort_id)
  have p: "plfit (e\<lparr>scipyOK := True\<rparr>) ?c ?x =
     discrete_best_alpha (e\<lparr>scipyOK := True\<rparr>) ?x (length (fst (np_unique_index (sort ?x))))
       (if opt_verbose ?c then [Using_discrete] else [])
       (opt_discrete_n_alpha ?c) (opt_discrete_approx ?c) (opt_verbose ?c) (opt_finite ?c)"
    by (rule plfit_discrete_path)
      (simp_all add: any_negative_def default_config_def s unique_index_ex2)
  have u2: "np_unique ?x = [0, 1]"
    by (simp add: np_unique_def sorted_sort_id unique_mask_def mask_select_def Let_def)
  have a0: "discrete_alpha_mle ?x 0 = NaN"
    by (simp add: discrete_alpha_mle_def mask_select_def count_nonzero_def np_sum_def Let_def)
  have a1: "discrete_alpha_mle ?x 1 = Fin 0"
    by (simp add: discrete_alpha_mle_def mask_select_def count_nonzero_def np_sum_def Let_def)
  have k0: "discrete_ksD ?x 0 NaN = Inr NaN"
    by (simp add: discrete_ksD_def mask_select_def Let_def sorted_sort_id np_max_def
        np_max1_def fl_maximum_def isnan_def fl_sub_def signed_inf_def)
  have k1: "discrete_ksD ?x 1 (Fin 0) = Inr PInf"
    by (simp add: discrete_ksD_def mask_select_def Let_def)
  show ?thesis
    unfolding p
    by (simp add: default_config_def
        discrete_best_alpha_def u2 a0 a1 k0 k1 Let_def isnan_def argmin_def fl_ge_def
        np_get_def discrete_likelihood_def)
qed

subsection \<open>The shape of a returned fit\<close>

lemma plfit_final_Inr:
  assumes "plfit_final e c data z0 xmins sel out xmin = Inr r"
  shows "s_xmin r = xmin \<and> s_ngtx r = length (filter (\<lambda>v. xmin \<le> v) z0)
     \<and> (if s_ngtx r = 1
         then s_alpha r = Fin 0 \<and> s_alphaerr r = Fin 0 \<and> s_ks r = Fin 0
              \<and> s_likelihood r = Fin 0 \<and> returned r = (xmin, Fin 0)
         else s_alphaerr r = fl_div (fl_sub (s_alpha r) (Fin 1)) (fl_sqrt (Fin (real (s_ngtx r))))
              \<and> \<not> isnan (s_alpha r) \<and> \<not> isnan (s_likelihood r)
              \<and> returned r = (xmin, s_alpha r))"
proof -
  let ?z = "mask_select z0 (map (\<lambda>v. xmin \<le> v) z0)"
  obtain alpha where a: "final_alpha (opt_finite c) ?z xmin = Inr alpha"
    using assms by (cases "final_alpha (opt_finite c) ?z xmin") (simp_all add: plfit_final_def Let_def)
  obtain ks where k: "final_ks ?z xmin alpha = Inr ks"
    using assms a by (cases "final_ks ?z xmin alpha") (simp_all add: plfit_final_def Let_def)
  show ?thesis
    using assms a k
    by (cases "length ?z = 1")
       (auto simp: plfit_final_def Let_def mask_select_map split: if_splits)
qed

lemma discrete_best_alpha_Inr:
  assumes "discrete_best_alpha e data nunique out n_alpha approximate verbose finite_corr = Inr r"
  shows "s_ngtx r = length (filter (\<lambda>v. s_xmin r \<le> v) data)
     \<and> s_alphaerr r = fl_div (fl_sub (s_alpha r) (Fin 1)) (fl_sqrt (Fin (real (s_ngtx r))))
     \<and> returned r = (s_xmin r, s_alpha r)
     \<and> \<not> finite_corr"
proof -
  let ?xmins = "np_unique data"
  let ?approx = "map (discrete_alpha_mle data) ?xmins"
  let ?ranges = "map (\<lambda>a. (fl_mul (Fin 0.9) a, fl_mul (Fin 1.1) a)) ?approx"
  let ?A = "if approximate then Inr ?approx
            else sequence_err (map2 (\<lambda>xmin ar. most_likely_alpha e data xmin ar n_alpha)
                                 ?xmins ?ranges)"
  note d = discrete_best_alpha_def Let_def
  obtain al where al: "?A = Inr al"
    using assms by (cases ?A) (simp_all add: d)
  let ?K = "sequence_err (map2 (\<lambda>xmin alpha. discrete_ksD data xmin alpha) ?xmins al)"
  obtain ks0 where ks0: "?K = Inr ks0"
    using assms al by (cases ?K) (simp_all add: d)
  let ?ks = "map (\<lambda>k. if isnan k then PInf else k) ks0"
  obtain b where b: "argmin ?ks = Inr b"
    using assms al ks0 by (cases "argmin ?ks") (simp_all add: d)
  obtain ba where ba: "np_get al b = Inr ba"
    using assms al ks0 b by (cases "np_get al b") (simp_all add: d)
  obtain bx where bx: "np_get ?xmins b = Inr bx"
    using assms al ks0 b ba by (cases "np_get ?xmins b") (simp_all add: d)
  obtain bk where bk: "np_get ?ks b = Inr bk"
    using assms al ks0 b ba bx by (cases "np_get ?ks b") (simp_all add: d)
  obtain bl where bl: "discrete_likelihood e data bx ba = Inr bl"
    using assms al ks0 b ba bx bk
    by (cases "discrete_likelihood e data bx ba") (simp_all add: d)
  show ?thesis
    using assms al ks0 b ba bx bk bl
    by (cases finite_corr) (auto simp: d count_nonzero_map)
qed

lemma filter_sort_length:
  "length (filter P (sort (x :: real list))) = length (filter P x)"
  by (metis filter_sort length_sort)

lemma plfit_given_xmin:
  assumes "opt_xmin c = Some xm"
  shows "plfit e c x =
     (if any_negative x then Inl ValueError
      else plfit_final e c x (sort x) (fst (np_unique_index (sort x))) None
             (snd (classify (opt_discrete c) (length (fst (np_unique_index (sort x))))
                     (length x) (opt_verbose c)))
             xm)"
  using assms
  by (cases "np_unique_index (sort x)";
      cases "classify (opt_discrete c) (length (fst (np_unique_index (sort x))))
                     (length x) (opt_verbose c)")
     (simp add: plfit_def Let_def)

lemma plfit_discrete_chosen:
  assumes "discrete_chosen c x"
  shows "plfit e c x =
     (if any_negative x then Inl ValueError
      else discrete_best_alpha e x (length (fst (np_unique_index (sort x))))
             (snd (classify (opt_discrete c) (length (fst (np_unique_index (sort x))))
                     (length x) (opt_verbose c)))
             (opt_discrete_n_alpha c) (opt_discrete_approx c) (opt_verbose c) (opt_finite c))"
  using assms
  by (cases "np_unique_index (sort x)";
      cases "classify (opt_discrete c) (length (fst (np_unique_index (sort x))))
                     (length x) (opt_verbose c)")
     (simp add: plfit_def Let_def discrete_chosen_def)

lemma plfit_search:
  assumes "opt_xmin c = None" and "\<not> discrete_chosen c x"
  shows "plfit e c x =
     (if any_negative x then Inl ValueError
      else case plfit_select e c (sort x) (fst (np_unique_index (sort x)))
                  (snd (np_unique_index (sort x))) of
             Inl err \<Rightarrow> Inl err
           | Inr s \<Rightarrow>
             (case consistency_check c (sort x) s of
                Inl err \<Rightarrow> Inl err
              | Inr _ \<Rightarrow>
                  plfit_final e c x (sort x) (fst (np_unique_index (sort x))) (Some s)
                    (snd (classify (opt_discrete c) (length (fst (np_unique_index (sort x))))
                            (length x) (opt_verbose c)) @ sel_printed s)
                    (sel_xmin s)))"
  using assms
  by (cases "np_unique_index (sort x)";
      cases "classify (opt_discrete c) (length (fst (np_unique_index (sort x))))
                     (length x) (opt_verbose c)")
     (simp add: plfit_def Let_def discrete_chosen_def cong: sum.case_cong)

text \<open>
  C9, as the code has it. For every completed fit the stored count \<open>n\<close> is the number of
  sample points at or above the reported threshold, and the reported error is
  \<open>(alpha - 1) / sqrt(n)\<close> of the reported exponent, except in the degenerate branch of
  the continuous path (\<open>n = 1\<close>), which reports the exponent \<open>0\<close> with the error \<open>0\<close>.
\<close>

theorem alphaerr_formula:
  assumes "plfit e c x = Inr r"
  shows "s_ngtx r = length (filter (\<lambda>v. s_xmin r \<le> v) x)
     \<and> (if s_ngtx r = 1 \<and> \<not> discrete_chosen c x
         then s_alpha r = Fin 0 \<and> s_alphaerr r = Fin 0
         else s_alphaerr r =
                fl_div (fl_sub (s_alpha r) (Fin 1)) (fl_sqrt (Fin (real (s_ngtx r)))))"
proof (cases "discrete_chosen c x")
  case True
  from assms have "discrete_best_alpha e x (length (fst (np_unique_index (sort x))))
             (snd (classify (opt_discrete c) (length (fst (np_unique_index (sort x))))
                     (length x) (opt_verbose c)))
             (opt_discrete_n_alpha c) (opt_discrete_approx c) (opt_verbose c) (opt_finite c)
           = Inr r"
    unfolding plfit_discrete_chosen[OF True] by (simp split: if_splits)
  from discrete_best_alpha_Inr[OF this] True show ?thesis by simp
next
  case False
  have "\<exists>sel out xm. plfit_final e c x (sort x) (fst (np_unique_index (sort x))) sel out xm = Inr r"
  proof (cases "opt_xmin c")
    case None
    from assms show ?thesis
      unfolding plfit_search[OF None False]
      by (auto split: if_splits sum.splits)
  next
    case (Some xm)
    from assms show ?thesis
      unfolding plfit_given_xmin[OF Some]
      by (auto split: if_splits)
  qed
  then obtain sel out xm where
    "plfit_final e c x (sort x) (fst (np_unique_index (sort x))) sel out xm = Inr r"
    by blast
  from plfit_final_Inr[OF this] False show ?thesis
    by (simp add: filter_sort_length split: if_splits)
qed

subsection \<open>The degenerate fit\<close>

lemma final_ks_total: "z \<noteq> [] \<Longrightarrow> \<exists>ks. final_ks z xmin alpha = Inr ks"
  unfolding final_ks_def Let_def by (rule np_max_nonempty) simp

lemma final_alpha_total:
  "z \<noteq> [] \<Longrightarrow> \<exists>a. final_alpha finite_corr z xmin = Inr a"
  by (simp add: final_alpha_def Let_def)

lemma plfit_final_degenerate:
  assumes "length (filter (\<lambda>v. xmin \<le> v) z0) = 1"
  shows "\<exists>r. plfit_final e c data z0 xmins sel out xmin = Inr r
     \<and> printed r = out @ (if \<not> opt_finite c \<and> \<not> opt_silent c then [Finite_size_bias 1] else [])
                     @ (if \<not> opt_silent c then [Only_one_point] else [])"
proof -
  let ?z = "mask_select z0 (map (\<lambda>v. xmin \<le> v) z0)"
  have n: "length ?z = 1" using assms by (simp add: mask_select_map)
  then have ne: "?z \<noteq> []" by auto
  obtain a where a: "final_alpha (opt_finite c) ?z xmin = Inr a"
    using final_alpha_total[OF ne] by blast
  obtain ks where ks: "final_ks ?z xmin a = Inr ks"
    using final_ks_total[OF ne] by blast
  show ?thesis
    using n a ks by (simp add: plfit_final_def Let_def)
qed

text \<open>
  The degenerate branch belongs to the continuous final stage and tests \<open>n == 1\<close>. Where
  it is reached, with the threshold given by the caller and exactly one sample point at
  or above it, the fit returns (no exception) with the exponent, its error, the KS
  distance and the likelihood all zero and the pair \<open>(xmin, 0)\<close>, and prints the warning
  unless \<open>silent\<close> is set.
\<close>

lemma degenerate_fit_zeroed:
  assumes "\<not> any_negative x" and "opt_xmin c = Some xm"
    and "length (filter (\<lambda>v. xm \<le> v) x) = 1"
  shows "\<exists>r. plfit e c x = Inr r
     \<and> s_alpha r = Fin 0 \<and> s_ks r = Fin 0 \<and> s_likelihood r = Fin 0 \<and> s_alphaerr r = Fin 0
     \<and> s_xmin r = xm \<and> returned r = (xm, Fin 0)
     \<and> (Only_one_point \<in> set (printed r)) = (\<not> opt_silent c)"
proof -
  let ?out = "snd (classify (opt_discrete c) (length (fst (np_unique_index (sort x))))
                     (length x) (opt_verbose c))"
  have n: "length (filter (\<lambda>v. xm \<le> v) (sort x)) = 1"
    using assms(3) by (simp add: filter_sort_length)
  obtain r where r: "plfit_final e c x (sort x) (fst (np_unique_index (sort x))) None ?out xm = Inr r"
    and p: "printed r = ?out @ (if \<not> opt_finite c \<and> \<not> opt_silent c then [Finite_size_bias 1] else [])
                     @ (if \<not> opt_silent c then [Only_one_point] else [])"
    using plfit_final_degenerate[OF n] by blast
  have o: "Only_one_point \<notin> set ?out"
    by (auto simp: classify_def)
  have "plfit e c x = Inr r"
    using r assms(1) by (simp add: plfit_given_xmin[OF assms(2)])
  moreover have "(Only_one_point \<in> set (printed r)) = (\<not> opt_silent c)"
    using p o by auto
  ultimately show ?thesis
    using plfit_final_Inr[OF r] n by auto
qed

lemma unique_index_ex3: "np_unique_index [1, 2, 3] = ([1, 2, 3], [0, 1, 2])"
  by (simp add: np_unique_index_def sorted_sort_id unique_mask_def mask_select_def Let_def)

lemma degenerate_fit_zeroed_example:
  "\<forall>e. \<exists>r. plfit e (default_config\<lparr>opt_xmin := Some 3\<rparr>) [1, 2, 3] = Inr r
     \<and> s_alpha r = Fin 0 \<and> s_ks r = Fin 0 \<and> s_likelihood r = Fin 0 \<and> s_alphaerr r = Fin 0
     \<and> returned r = (3, Fin 0) \<and> Only_one_point \<in> set (printed r)"
proof
  fix e
  show "\<exists>r. plfit e (default_config\<lparr>opt_xmin := Some 3\<rparr>) [1, 2, 3] = Inr r
     \<and> s_alpha r = Fin 0 \<and> s_ks r = Fin 0 \<and> s_likelihood r = Fin 0 \<and> s_alphaerr r = Fin 0
     \<and> returned r = (3, Fin 0) \<and> Only_one_point \<in> set (printed r)"
    using degenerate_fit_zeroed[of "[1, 2, 3]" "default_config\<lparr>opt_xmin := Some 3\<rparr>" 3 e]
    by (auto simp: any_negative_def default_config_def)
qed

lemma given_xmin_above_sample:
  "plfit e (default_config\<lparr>opt_xmin := Some 5\<rparr>) [1, 2, 3] = Inl ValueError"
  by (simp add: plfit_given_xmin any_negative_def default_config_def plfit_final_def
      mask_select_def final_alpha_def final_ks_def np_max_def np_sum_def Let_def)

lemma discrete_single_point:
  "\<exists>r. plfit (e\<lparr>scipyOK := True\<rparr>) (default_config\<lparr>opt_discrete := Some True\<rparr>) [5] = Inr r
       \<and> s_ngtx r = 1 \<and> s_alpha r = Fin 0 \<and> s_ks r = PInf"
proof -
  let ?c = "default_config\<lparr>opt_discrete := Some True\<rparr>"
  have u: "np_unique_index [5] = ([5], [0])"
    by (simp add: np_unique_index_def unique_mask_def mask_select_def Let_def)
  have dc: "discrete_chosen ?c [5]"
    by (simp add: discrete_chosen_def default_config_def classify_def u)
  have u2: "np_unique [5] = [5]"
    by (simp add: np_unique_def unique_mask_def mask_select_def Let_def)
  have a: "discrete_alpha_mle [5] 5 = Fin 0"
    by (simp add: discrete_alpha_mle_def mask_select_def count_nonzero_def Let_def)
  have k: "discrete_ksD [5] 5 (Fin 0) = Inr PInf"
    by (simp add: discrete_ksD_def mask_select_def Let_def)
  show ?thesis
    unfolding plfit_discrete_chosen[OF dc]
    by (simp add: any_negative_def default_config_def u classify_def discrete_best_alpha_def
        u2 a k Let_def isnan_def argmin_def np_get_def discrete_likelihood_def
        count_nonzero_def)
qed

lemma unique_index_single: "np_unique_index [5] = ([5], [0])"
  by (simp add: np_unique_index_def unique_mask_def mask_select_def Let_def)

lemma kstest_single: "kstest_gen [5] False False 5 = Inr (Fin 0)"
  by (simp add: kstest_gen_def mask_select_def Let_def np_sum_def signed_inf_def fl_sub_def
      np_max_def np_max1_def)

lemma select_single: "plfit_select e default_config [5] [5] [0] = Inl ValueError"
proof -
  have a: "alpha_gen [5] 5 = Fin 0"
    by (simp add: alpha_gen_def count_nonzero_def Let_def)
  have cs: "candidate_statistics e default_config [5] [5] [0]
      = Inr ([Fin 0], [Fin 0], [Executed_python])"
    by (simp add: candidate_statistics_def default_config_def Let_def a kstest_single)
  have sg: "sigma_values [Fin 0] (length [5 :: real]) [0] = Inr [Fin (- 1)]"
    by (simp add: sigma_values_def broadcast2_def fl_sub_def)
  have nm: "select_nmax True False [Fin (- 1)] (length [5 :: real]) = Inr (0, [Not_enough_data])"
    by (simp add: select_nmax_def argmin_bool_def Let_def)
  show ?thesis
    unfolding plfit_select_def cs
    using sg nm by (simp add: default_config_def py_take_def argmin_def)
qed

text \<open>
  C7 says that a sample with fewer than two points at or above the selected threshold
  yields the zeroed result and no exception. The guard \<open>n == 1\<close> that zeroes the result
  stands after the search, and on the one-point sample \<open>[5]\<close> with the default options
  the search itself fails: the only candidate has \<open>sigma = -1\<close>, so every candidate is
  good, \<open>nmax\<close> falls back to \<open>len(xmins) - 1 = 0\<close>, and \<open>argmin\<close> over the empty
  range raises \<open>ValueError\<close>. The discrete selector on the same sample returns the KS
  distance \<open>inf\<close> without zeroing (\<open>discrete_single_point\<close>), and a threshold given
  above every sample point raises as well (\<open>given_xmin_above_sample\<close>).
\<close>

theorem single_point_search_raises: "plfit e default_config [5] = Inl ValueError"
proof -
  have dc: "\<not> discrete_chosen default_config [5]"
    by (simp add: discrete_chosen_def default_config_def classify_def unique_index_single)
  have x: "opt_xmin default_config = None" by (simp add: default_config_def)
  show ?thesis
    unfolding plfit_search[OF x dc]
    by (simp add: any_negative_def unique_index_single select_single)
qed

theorem alphaerr_formula_witness:
  "\<forall>e. \<exists>r. plfit (e\<lparr>scipyOK := True\<rparr>) (default_config\<lparr>opt_discrete := Some True\<rparr>) [5] = Inr r
     \<and> s_ngtx r = 1
     \<and> s_alphaerr r = fl_div (fl_sub (s_alpha r) (Fin 1)) (fl_sqrt (Fin (real (s_ngtx r))))"
proof
  fix e
  let ?c = "default_config\<lparr>opt_discrete := Some True\<rparr>"
  obtain r where r: "plfit (e\<lparr>scipyOK := True\<rparr>) ?c [5] = Inr r" and n: "s_ngtx r = 1"
    using discrete_single_point by blast
  have u: "np_unique_index [5] = ([5], [0])"
    by (simp add: np_unique_index_def unique_mask_def mask_select_def Let_def)
  have dc: "discrete_chosen ?c [5]"
    by (simp add: discrete_chosen_def default_config_def classify_def u)
  have "s_alphaerr r = fl_div (fl_sub (s_alpha r) (Fin 1)) (fl_sqrt (Fin (real (s_ngtx r))))"
    using alphaerr_formula[OF r] dc by simp
  with r n show "\<exists>r. plfit (e\<lparr>scipyOK := True\<rparr>) ?c [5] = Inr r
     \<and> s_ngtx r = 1
     \<and> s_alphaerr r = fl_div (fl_sub (s_alpha r) (Fin 1)) (fl_sqrt (Fin (real (s_ngtx r))))"
    by blast
qed

text \<open>
  C9 as stated fails on the degenerate branch: with the threshold \<open>3\<close> given for the
  sample \<open>[1, 2, 3]\<close> the fit completes with \<open>n = 1\<close>, the exponent \<open>0\<close> and the error
  \<open>0\<close>, while \<open>(alpha - 1) / sqrt(n)\<close> is \<open>-1\<close>.
\<close>

theorem alphaerr_degenerate:
  "\<forall>e. \<exists>r. plfit e (default_config\<lparr>opt_xmin := Some 3\<rparr>) [1, 2, 3] = Inr r
     \<and> s_ngtx r = 1 \<and> s_alpha r = Fin 0 \<and> s_alphaerr r = Fin 0
     \<and> fl_div (fl_sub (s_alpha r) (Fin 1)) (fl_sqrt (Fin (real (s_ngtx r)))) = Fin (- 1)"
proof
  fix e
  let ?c = "default_config\<lparr>opt_xmin := Some 3\<rparr>"
  let ?x = "[1, 2, 3 :: real]"
  let ?xm = "fst (np_unique_index (sort ?x))"
  let ?out = "snd (classify (opt_discrete ?c) (length ?xm) (length ?x) (opt_verbose ?c))"
  have cx: "opt_xmin ?c = Some 3" by simp
  have n: "length (filter (\<lambda>v. 3 \<le> v) (sort ?x)) = 1" by (simp add: sorted_sort_id)
  obtain r where r: "plfit_final e ?c ?x (sort ?x) ?xm None ?out 3 = Inr r"
    using plfit_final_degenerate[OF n] by blast
  have "\<not> any_negative ?x" by (simp add: any_negative_def)
  then have p: "plfit e ?c ?x = Inr r"
    unfolding plfit_given_xmin[OF cx] using r by (simp only: if_False)
  have f: "s_ngtx r = 1 \<and> s_alpha r = Fin 0 \<and> s_alphaerr r = Fin 0"
    using plfit_final_Inr[OF r] n by simp
  then have "fl_div (fl_sub (s_alpha r) (Fin 1)) (fl_sqrt (Fin (real (s_ngtx r)))) = Fin (- 1)"
    by (simp add: fl_sub_def)
  with p f show "\<exists>r. plfit e ?c ?x = Inr r
     \<and> s_ngtx r = 1 \<and> s_alpha r = Fin 0 \<and> s_alphaerr r = Fin 0
     \<and> fl_div (fl_sub (s_alpha r) (Fin 1)) (fl_sqrt (Fin (real (s_ngtx r)))) = Fin (- 1)"
    by blast
qed

subsection \<open>The minimum that argmin selects\<close>








subsection \<open>The stages of the continuous selector\<close>




subsection \<open>The candidates and their first indices\<close>











lemma count_ge_from_index:
  fixes z :: "real list"
  shows "length z - length (filter (\<lambda>v. v < u) z) = length (filter (\<lambda>v. u \<le> v) z)"
proof -
  have "length (filter (\<lambda>v. v < u) z) + length (filter (\<lambda>v. \<not> v < u) z) = length z"
    by (rule sum_length_filter_compl)
  moreover have "filter (\<lambda>v. \<not> v < u) z = filter (\<lambda>v. u \<le> v) z"
    by (rule filter_cong) auto
  ultimately show ?thesis by simp
qed

subsection \<open>The selected threshold\<close>




subsection \<open>The numpy back end on a small sample\<close>

lemma kstest_gen_total: "\<exists>k. kstest_gen x0 u f xm = Inr k"
proof -
  let ?x1 = "if u then np_unique x0 else x0"
  let ?x = "mask_select ?x1 (map (\<lambda>v. xm \<le> v) ?x1)"
  show ?thesis
  proof (cases "length ?x = 0")
    case True
    then show ?thesis by (simp add: kstest_gen_def Let_def)
  next
    case False
    then have ne: "?x \<noteq> []" by simp
    have "\<And>g h. map2 (\<lambda>f c. fl_abs (fl_sub f c)) (map g ?x) (map h [0..<length ?x]) \<noteq> []"
      using ne by simp
    from np_max_nonempty[OF this] False show ?thesis
      by (simp add: kstest_gen_def Let_def)
  qed
qed





subsection \<open>A two-point sample through the search\<close>











subsection \<open>The consistency check of the selected exponent\<close>

lemma candidate_statistics_total:
  "\<exists>r. candidate_statistics e c z xmins argxmins = Inr r"
proof -
  have "sequence_err (map (kstest_gen z False False) xmins)
      = Inr (map (\<lambda>xm. projr (kstest_gen z False False xm)) xmins)"
    by (rule sequence_err_map_Inr) (simp add: kstest_gen_total)
  then show ?thesis
    by (cases "fplfit e z"; cases "cplfit e z xmins argxmins")
       (simp add: candidate_statistics_def Let_def)
qed

lemma sigma_values_err: "sigma_values a n k = Inl err \<Longrightarrow> err = ValueError"
  by (simp add: sigma_values_def broadcast2_def split: if_splits)

lemma select_nmax_err: "select_nmax ns si sg n = Inl err \<Longrightarrow> err = ValueError"
  by (simp add: select_nmax_def argmin_bool_def Let_def split: if_splits)

lemma argmin_err: "argmin xs = Inl err \<Longrightarrow> err = ValueError"
  by (cases xs) (simp_all add: argmin_def)

lemma np_get_err: "np_get xs i = Inl err \<Longrightarrow> err = IndexError"
  by (simp add: np_get_def split: if_splits)

lemma plfit_select_err:
  assumes "plfit_select e c z xmins argxmins = Inl err"
  shows "err = ImportError \<or> err = ValueError \<or> err = IndexError"
proof -
  note d = plfit_select_def
  obtain ksv av out1 where cs: "candidate_statistics e c z xmins argxmins = Inr (ksv, av, out1)"
    using candidate_statistics_total[of e c z xmins argxmins] by (metis prod_cases3)
  show ?thesis
  proof (cases "(\<not> opt_quiet c \<and> opt_usefortran c \<and> \<not> fortranOK e)
      \<or> (\<not> opt_quiet c \<and> opt_usecy c \<and> \<not> cyOK e)")
    case True
    then show ?thesis using assms cs by (auto simp: d split: if_splits)
  next
    case imp: False
    show ?thesis
    proof (cases "sigma_values av (length z) argxmins")
      case (Inl a)
      then show ?thesis using assms cs imp sigma_values_err[OF Inl] by (auto simp: d)
    next
      case sg: (Inr sg)
      show ?thesis
      proof (cases "select_nmax (opt_nosmall c) (opt_silent c) sg (length xmins)")
        case (Inl a)
        then show ?thesis using assms cs imp sg select_nmax_err[OF Inl] by (auto simp: d)
      next
        case (Inr p)
        obtain nmax out2 where p: "p = (nmax, out2)" by (cases p)
        note nm = Inr[unfolded p]
        show ?thesis
        proof (cases "argmin (py_take nmax ksv)")
          case (Inl a)
          then show ?thesis using assms cs imp sg nm argmin_err[OF Inl] by (auto simp: d)
        next
          case b: (Inr b)
          show ?thesis
          proof (cases "np_get xmins b")
            case (Inl a)
            then show ?thesis using assms cs imp sg nm b np_get_err[OF Inl] by (auto simp: d)
          next
            case (Inr xm)
            then show ?thesis using assms cs imp sg nm b by (auto simp: d)
          qed
        qed
      qed
    qed
  qed
qed

lemma np_max_err: "np_max xs = Inl err \<Longrightarrow> err = ValueError"
  by (cases xs) (simp_all add: np_max_def)

lemma plfit_final_err:
  assumes "plfit_final e c data z0 xmins sel out xmin = Inl err"
  shows "err = ZeroDivisionError \<or> err = ValueError"
proof -
  let ?z = "mask_select z0 (map (\<lambda>v. xmin \<le> v) z0)"
  show ?thesis
  proof (cases "final_alpha (opt_finite c) ?z xmin")
    case (Inl a)
    then have "a = ZeroDivisionError"
      by (simp add: final_alpha_def Let_def split: if_splits)
    then show ?thesis using assms Inl by (simp add: plfit_final_def Let_def)
  next
    case a: (Inr alpha)
    show ?thesis
    proof (cases "final_ks ?z xmin alpha")
      case (Inl b)
      then have "b = ValueError" unfolding final_ks_def Let_def by (rule np_max_err)
      then show ?thesis using assms a Inl by (simp add: plfit_final_def Let_def)
    next
      case (Inr ks)
      then show ?thesis using assms a
        by (simp add: plfit_final_def Let_def split: if_splits)
    qed
  qed
qed

lemma consistency_check_cases:
  "consistency_check c z s =
     (if opt_skip_consistency_check c then Inr ()
      else if \<not> sel_best_ks_index s < length (sel_alpha_values s) then Inl IndexError
      else if assert_almost_equal (direct_alpha z (sel_xmin s))
                (sel_alpha_values s ! sel_best_ks_index s) then Inr ()
      else Inl AssertionError)"
  by (simp add: consistency_check_def np_get_def Let_def)

lemma assert_almost_equal_Fin:
  "assert_almost_equal (Fin a) (Fin b) = (\<bar>b - a\<bar> < 15 / 100000)"
  by (simp add: assert_almost_equal_def fl_sub_def)

text \<open>
  C2, as the code has it. In the continuous search the fit ends with \<open>AssertionError\<close>
  exactly when the consistency check is not skipped, the selection has completed, and
  \<open>numpy.testing.assert_almost_equal(alpha, alpha_values[best_ks_index], decimal=4)\<close>
  fails on the exponent recomputed from the selected threshold and the selector's
  exponent at the selected index; with \<open>skip_consistency_check=True\<close> it never does. The
  tolerance of that comparison is absolute: two finite values pass exactly when they
  differ by less than \<open>1.5e-4\<close>; two NaNs and two equal infinities pass; a finite value
  against a NaN or an infinity fails.
\<close>

theorem consistency_check_raises:
  assumes "opt_xmin c = None" and "\<not> discrete_chosen c x"
  shows "(plfit e c x = Inl AssertionError)
     = (\<not> opt_skip_consistency_check c \<and> \<not> any_negative x
        \<and> (\<exists>s. plfit_select e c (sort x) (fst (np_unique_index (sort x)))
                  (snd (np_unique_index (sort x))) = Inr s
             \<and> sel_best_ks_index s < length (sel_alpha_values s)
             \<and> \<not> assert_almost_equal (direct_alpha (sort x) (sel_xmin s))
                    (sel_alpha_values s ! sel_best_ks_index s)))
     \<and> (\<forall>a b. assert_almost_equal (Fin a) (Fin b) = (\<bar>b - a\<bar> < 15 / 100000))
     \<and> assert_almost_equal NaN NaN \<and> assert_almost_equal PInf PInf
     \<and> (\<forall>a. \<not> assert_almost_equal (Fin a) NaN \<and> \<not> assert_almost_equal (Fin a) PInf)"
proof -
  let ?sel = "plfit_select e c (sort x) (fst (np_unique_index (sort x)))
                  (snd (np_unique_index (sort x)))"
  have main: "(plfit e c x = Inl AssertionError)
     = (\<not> opt_skip_consistency_check c \<and> \<not> any_negative x
        \<and> (\<exists>s. ?sel = Inr s
             \<and> sel_best_ks_index s < length (sel_alpha_values s)
             \<and> \<not> assert_almost_equal (direct_alpha (sort x) (sel_xmin s))
                    (sel_alpha_values s ! sel_best_ks_index s)))"
  proof (cases "any_negative x")
    case True
    then show ?thesis by (simp add: plfit_search[OF assms])
  next
    case nn: False
    show ?thesis
    proof (cases ?sel)
      case (Inl err)
      then show ?thesis using nn plfit_select_err[OF Inl]
        by (auto simp: plfit_search[OF assms])
    next
      case (Inr s)
      show ?thesis
      proof (cases "consistency_check c (sort x) s")
        case (Inl err)
        then show ?thesis using nn Inr
          by (auto simp: plfit_search[OF assms] consistency_check_cases split: if_splits)
      next
        case ok: (Inr u)
        have "plfit e c x \<noteq> Inl AssertionError"
          using nn Inr ok plfit_final_err
          by (fastforce simp: plfit_search[OF assms])
        then show ?thesis using nn Inr ok
          by (auto simp: consistency_check_cases split: if_splits)
      qed
    qed
  qed
  show ?thesis
    unfolding main
    by (simp add: assert_almost_equal_Fin)
       (simp add: assert_almost_equal_def isnan_def)
qed

end
